theory Spec2Isabelle
  imports Complex_Main
begin

section \<open>Numbers of the program\<close>

text \<open>
  The controller computes in C++ \<open>float\<close>. A value is modelled as a real number or one of
  the three special values of IEEE 754 arithmetic. Finite values are computed exactly:
  rounding and overflow are not modelled, and zero carries no sign (a zero divisor is
  \<open>+0\<close>, which is what the subtraction of two equal timestamps yields). The special
  values follow IEEE 754: they are what the division by a zero \<open>dt\<close> produces and what
  the comparisons of the controller then see.

  The theorems on the output bounds, on the slew rate and on a call with \<open>dt = 0\<close> do not
  rest on the exact value of a finite sum, product or quotient: they are proved for every
  value that the control law can have, a number, an infinity or NaN, and so they also
  hold where the \<open>float\<close> arithmetic of the program overflows.
\<close>

datatype fl = Fin real | PInf | NInf | NaN

fun fneg :: "fl \<Rightarrow> fl" where
  "fneg (Fin a) = Fin (- a)"
| "fneg PInf = NInf"
| "fneg NInf = PInf"
| "fneg NaN = NaN"

fun fadd :: "fl \<Rightarrow> fl \<Rightarrow> fl" where
  "fadd NaN _ = NaN"
| "fadd _ NaN = NaN"
| "fadd PInf NInf = NaN"
| "fadd NInf PInf = NaN"
| "fadd PInf _ = PInf"
| "fadd _ PInf = PInf"
| "fadd NInf _ = NInf"
| "fadd _ NInf = NInf"
| "fadd (Fin a) (Fin b) = Fin (a + b)"

definition fsub :: "fl \<Rightarrow> fl \<Rightarrow> fl" where
  "fsub a b = fadd a (fneg b)"

text \<open>The sign of an infinite product or quotient: \<open>True\<close> is positive.\<close>

definition inf_of :: "bool \<Rightarrow> fl" where
  "inf_of pos = (if pos then PInf else NInf)"

fun fmul :: "fl \<Rightarrow> fl \<Rightarrow> fl" where
  "fmul NaN _ = NaN"
| "fmul _ NaN = NaN"
| "fmul PInf PInf = PInf"
| "fmul PInf NInf = NInf"
| "fmul NInf PInf = NInf"
| "fmul NInf NInf = PInf"
| "fmul PInf (Fin b) = (if b = 0 then NaN else inf_of (0 < b))"
| "fmul NInf (Fin b) = (if b = 0 then NaN else inf_of (b < 0))"
| "fmul (Fin a) PInf = (if a = 0 then NaN else inf_of (0 < a))"
| "fmul (Fin a) NInf = (if a = 0 then NaN else inf_of (a < 0))"
| "fmul (Fin a) (Fin b) = Fin (a * b)"

fun fdiv :: "fl \<Rightarrow> fl \<Rightarrow> fl" where
  "fdiv NaN _ = NaN"
| "fdiv _ NaN = NaN"
| "fdiv PInf (Fin b) = inf_of (0 \<le> b)"
| "fdiv NInf (Fin b) = inf_of (b < 0)"
| "fdiv PInf _ = NaN"
| "fdiv NInf _ = NaN"
| "fdiv (Fin a) PInf = Fin 0"
| "fdiv (Fin a) NInf = Fin 0"
| "fdiv (Fin a) (Fin b) =
     (if b = 0 then (if a = 0 then NaN else inf_of (0 < a)) else Fin (a / b))"

text \<open>The comparisons \<open><\<close> and \<open>>\<close> of C++: false as soon as an operand is NaN.\<close>

fun flt :: "fl \<Rightarrow> fl \<Rightarrow> bool" where
  "flt NaN _ = False"
| "flt _ NaN = False"
| "flt _ NInf = False"
| "flt NInf _ = True"
| "flt PInf _ = False"
| "flt _ PInf = True"
| "flt (Fin a) (Fin b) = (a < b)"

definition fgt :: "fl \<Rightarrow> fl \<Rightarrow> bool" where
  "fgt a b = flt b a"

text \<open>
  Used to state properties only: \<open>\<le>\<close>, the absolute value, and being a finite number.
\<close>

fun fle :: "fl \<Rightarrow> fl \<Rightarrow> bool" where
  "fle NaN _ = False"
| "fle _ NaN = False"
| "fle NInf _ = True"
| "fle _ NInf = False"
| "fle _ PInf = True"
| "fle PInf _ = False"
| "fle (Fin a) (Fin b) = (a \<le> b)"

fun fabs :: "fl \<Rightarrow> fl" where
  "fabs (Fin a) = Fin \<bar>a\<bar>"
| "fabs PInf = PInf"
| "fabs NInf = PInf"
| "fabs NaN = NaN"

fun is_fin :: "fl \<Rightarrow> bool" where
  "is_fin (Fin a) = True"
| "is_fin _ = False"

section \<open>Velocity commands\<close>

text \<open>
  \<open>move_drone\<close> fills a \<open>geometry_msgs::Twist\<close> and publishes it. The model returns the
  message; the caller appends it to the list of published messages.
\<close>

record Twist =
  linear_x :: fl
  linear_y :: fl
  linear_z :: fl
  angular_x :: fl
  angular_y :: fl
  angular_z :: fl

definition move_drone :: "fl \<Rightarrow> fl \<Rightarrow> fl \<Rightarrow> Twist" where
  "move_drone velocity_x velocity_z yaw_speed =
     \<lparr> linear_x = velocity_x, linear_y = Fin 0, linear_z = velocity_z,
       angular_x = Fin 0, angular_y = Fin 0, angular_z = yaw_speed \<rparr>"

section \<open>class PID\_controller\<close>

record PID_controller =
  time_stamp_prev :: real
  integral :: fl
  SP :: fl
  kp :: fl
  ki :: fl
  kd :: fl
  outMax :: fl
  outMin :: fl
  prev_error :: "fl list"
  output_slew_rate :: fl
  prev_output :: fl
  offset :: fl

text \<open>
  \<open>prev_error\<close> is the array \<open>float prev_error[3]\<close>: a list that has three elements in
  every state that the constructor and \<open>compute_output\<close> produce.

  The constructor. It does not read the clock.
\<close>

definition PID_controller ::
  "fl \<Rightarrow> fl \<Rightarrow> fl \<Rightarrow> fl \<Rightarrow> fl \<Rightarrow> fl \<Rightarrow> fl \<Rightarrow> fl \<Rightarrow> PID_controller" where
  "PID_controller SP_in slew_rate_in outMax_in outMin_in kp_in ki_in kd_in offset_in =
     \<lparr> time_stamp_prev = 0, integral = Fin 0, SP = SP_in,
       kp = kp_in, ki = ki_in, kd = kd_in,
       outMax = outMax_in, outMin = outMin_in,
       prev_error = [Fin 0, Fin 0, Fin 0],
       output_slew_rate = slew_rate_in, prev_output = Fin 0, offset = offset_in \<rparr>"

text \<open>
  \<open>compute_output\<close>, in the order of the source. The clock reading
  \<open>ros::Time::now().toSec()\<close> is the argument \<open>time_stamp_curr\<close>: a finite number. The
  pieces of the body are definitions of their own, so that the local variables \<open>dt\<close> and
  \<open>derivative\<close> can be spoken about.
\<close>

definition elapsed :: "PID_controller \<Rightarrow> real \<Rightarrow> fl" where
  "elapsed c time_stamp_curr = Fin (time_stamp_curr - time_stamp_prev c)"

definition derivative_numerator :: "PID_controller \<Rightarrow> fl \<Rightarrow> fl" where
  "derivative_numerator c error =
     fsub (fsub (fadd error (fmul (Fin 3) (prev_error c ! 2)))
                (fmul (Fin 3) (prev_error c ! 1)))
          (prev_error c ! 0)"

definition derivative_term :: "PID_controller \<Rightarrow> fl \<Rightarrow> fl \<Rightarrow> fl" where
  "derivative_term c error dt = fdiv (fdiv (derivative_numerator c error) (Fin 6)) dt"

definition outside_deadband :: "PID_controller \<Rightarrow> fl \<Rightarrow> bool" where
  "outside_deadband c error \<longleftrightarrow>
     fgt error (offset c) \<or> flt error (fmul (offset c) (Fin (- 1)))"

definition slew_limit :: "PID_controller \<Rightarrow> fl \<Rightarrow> fl" where
  "slew_limit c output =
     (if fgt (fsub output (prev_output c)) (output_slew_rate c)
        then fadd (prev_output c) (output_slew_rate c)
      else if flt (fsub output (prev_output c)) (fneg (output_slew_rate c))
        then fsub (prev_output c) (output_slew_rate c)
      else output)"

definition cap_output :: "PID_controller \<Rightarrow> fl \<Rightarrow> fl" where
  "cap_output c output =
     (if fgt output (outMax c) then outMax c
      else if flt output (outMin c) then outMin c
      else output)"

text \<open>
  The three assignments that end the body, one after the other: the second reads
  \<open>prev_error[1]\<close> after the first has overwritten it.
\<close>

definition shift_errors :: "fl list \<Rightarrow> fl \<Rightarrow> fl list" where
  "shift_errors pe error =
     (let pe1 = pe[1 := pe ! 0];
          pe2 = pe1[2 := pe1 ! 1]
      in pe2[0 := error])"

definition compute_output :: "PID_controller \<Rightarrow> real \<Rightarrow> fl \<Rightarrow> PID_controller \<times> fl" where
  "compute_output c time_stamp_curr PV =
     (let dt = elapsed c time_stamp_curr;
          error = fsub (SP c) PV;
          integral' = fadd (integral c) (fmul error dt);
          derivative = derivative_term c error dt;
          output0 = (if outside_deadband c error
                     then fadd (fadd (fmul (kp c) error) (fmul (ki c) integral'))
                               (fmul (kd c) derivative)
                     else Fin 0);
          output = cap_output c (slew_limit c output0)
      in (c\<lparr> integral := integral',
              time_stamp_prev := time_stamp_curr,
              prev_output := output,
              prev_error := shift_errors (prev_error c) error \<rparr>,
          output))"

text \<open>
  A sequence of calls on one controller: each call comes with its clock reading and its
  process value. \<open>run_pid\<close> gives the outputs in order and the controller left behind.
\<close>

fun run_pid :: "PID_controller \<Rightarrow> (real \<times> fl) list \<Rightarrow> fl list \<times> PID_controller" where
  "run_pid c [] = ([], c)"
| "run_pid c ((t, PV) # rest) =
     (let (c', out) = compute_output c t PV;
          (outs, c'') = run_pid c' rest
      in (out # outs, c''))"

definition within_bounds :: "PID_controller \<Rightarrow> fl \<Rightarrow> bool" where
  "within_bounds c out \<longleftrightarrow> fle (outMin c) out \<and> fle out (outMax c)"




section \<open>class increase\_altitude\<close>

text \<open>
  The altitudes are C++ \<open>int\<close>s that are only stored and compared, never computed with.
  The publisher and the node handle are left out: what is published is returned.
\<close>

record increase_altitude =
  current_altitude :: int
  desired_altitude :: int

definition increase_altitude :: "int \<Rightarrow> increase_altitude" where
  "increase_altitude altitude = \<lparr> current_altitude = 0, desired_altitude = altitude \<rparr>"

definition climb :: Twist where
  "climb = move_drone (Fin 0) (Fin (6 / 10)) (Fin 0)"

definition stop :: Twist where
  "stop = move_drone (Fin 0) (Fin 0) (Fin 0)"

definition increase_altitude_callback ::
  "increase_altitude \<Rightarrow> int \<Rightarrow> increase_altitude \<times> Twist" where
  "increase_altitude_callback a altd = (a\<lparr> current_altitude := altd \<rparr>, climb)"

text \<open>
  \<open>run\<close> spins until the altitude is reached. The navdata messages that arrive are a
  list; the subscription queue holds one message, so a \<open>spinOnce\<close> delivers at most one,
  and a \<open>spinOnce\<close> that finds no message changes nothing and is not a step. When the
  list is used up below the desired altitude the loop spins forever: \<open>Spinning\<close>, with
  what has been published so far. \<open>Returned\<close> carries the messages that were never
  delivered: the subscription is shut down before \<open>run\<close> returns.
\<close>

datatype run_result =
  Returned increase_altitude "Twist list" "int list"
| Spinning increase_altitude "Twist list"

fun spin :: "increase_altitude \<Rightarrow> int list \<Rightarrow> Twist list \<Rightarrow> run_result" where
  "spin a [] published =
     (if current_altitude a < desired_altitude a then Spinning a published
      else Returned a published [])"
| "spin a (altd # rest) published =
     (if current_altitude a < desired_altitude a
      then (let (a', msg) = increase_altitude_callback a altd
            in spin a' rest (published @ [msg]))
      else Returned a published (altd # rest))"

definition increase_altitude_run :: "increase_altitude \<Rightarrow> int list \<Rightarrow> run_result" where
  "increase_altitude_run a navdata =
     (case spin a navdata [] of
        Spinning a' published \<Rightarrow> Spinning a' published
      | Returned a' published rest \<Rightarrow> Returned a' (published @ [stop]) rest)"

text \<open>
  The ramp as the specification words it, for comparison: on each update the altitude is
  recorded and a climb command is issued as long as the altitude is below the target;
  once it is not, exactly one stop command is issued and the ramp is over.
\<close>

fun ramp_as_specified :: "int \<Rightarrow> int list \<Rightarrow> Twist list" where
  "ramp_as_specified target [] = []"
| "ramp_as_specified target (altd # rest) =
     (if altd < target then climb # ramp_as_specified target rest else [stop])"

section \<open>class autonomy and main\<close>

record image =
  distance :: fl
  yaw :: fl
  height :: fl

record autonomy =
  takeoff_altitude :: int
  velocity_PI :: PID_controller
  yaw_PI :: PID_controller
  alt_PI :: PID_controller

definition autonomy ::
  "int \<Rightarrow> PID_controller \<Rightarrow> PID_controller \<Rightarrow> PID_controller \<Rightarrow> autonomy" where
  "autonomy alt velocity_PI_in yaw_PI_in alt_PI_in =
     \<lparr> takeoff_altitude = alt, velocity_PI = velocity_PI_in,
       yaw_PI = yaw_PI_in, alt_PI = alt_PI_in \<rparr>"

text \<open>
  The tracking callback. Each \<open>compute_output\<close> reads the clock itself, so the callback
  takes three clock readings. It returns the message it publishes.
\<close>

definition autonomy_callback ::
  "autonomy \<Rightarrow> real \<times> real \<times> real \<Rightarrow> image \<Rightarrow> autonomy \<times> Twist" where
  "autonomy_callback d clock img =
     (let (t1, t2, t3) = clock;
          (v', out_x) = compute_output (velocity_PI d) t1 (distance img);
          x_velocity = fneg out_x;
          (y', yaw_speed) = compute_output (yaw_PI d) t2 (yaw img);
          (a', z_velocity) = compute_output (alt_PI d) t3 (height img)
      in (d\<lparr> velocity_PI := v', yaw_PI := y', alt_PI := a' \<rparr>,
          move_drone x_velocity z_velocity yaw_speed))"

text \<open>
  The controllers of \<open>main\<close>. \<open>arg i\<close> is \<open>atof(argv[i])\<close>; the decimal constants are
  taken as the exact fractions.
\<close>

definition main_altitude_PI :: "(nat \<Rightarrow> fl) \<Rightarrow> PID_controller" where
  "main_altitude_PI arg =
     PID_controller (Fin 0) (Fin (5 / 10)) (Fin (4 / 10)) (Fin (- (4 / 10)))
       (arg 1) (arg 2) (arg 3) (arg 4)"

definition main_velocity_PI :: "(nat \<Rightarrow> fl) \<Rightarrow> PID_controller" where
  "main_velocity_PI arg =
     PID_controller (Fin 250) (Fin (2 / 10)) (Fin (3 / 10)) (Fin (- (3 / 10)))
       (arg 5) (arg 6) (arg 7) (arg 8)"

definition main_yaw_PI :: "(nat \<Rightarrow> fl) \<Rightarrow> PID_controller" where
  "main_yaw_PI arg =
     PID_controller (Fin 0) (Fin (2 / 10)) (Fin (5 / 10)) (Fin (- (5 / 10)))
       (arg 9) (arg 10) (arg 11) (arg 12)"

definition main_drone :: "(nat \<Rightarrow> fl) \<Rightarrow> autonomy" where
  "main_drone arg =
     autonomy 1300 (main_velocity_PI arg) (main_yaw_PI arg) (main_altitude_PI arg)"

text \<open>
  The elapsed time that the specification asks for on the first call, for comparison:
  the seconds since the controller was constructed.
\<close>

definition elapsed_since_construction :: "real \<Rightarrow> real \<Rightarrow> fl" where
  "elapsed_since_construction t_construct time_stamp_curr = Fin (time_stamp_curr - t_construct)"

section \<open>Basic facts\<close>

lemma fsub_Fin [simp]: "fsub (Fin a) (Fin b) = Fin (a - b)"
  by (simp add: fsub_def)

lemma fgt_Fin [simp]: "fgt (Fin a) (Fin b) = (b < a)"
  by (simp add: fgt_def)

lemma is_fin_iff: "is_fin x \<longleftrightarrow> (\<exists>a. x = Fin a)"
  by (cases x) simp_all

lemma shift_errors_three: "shift_errors [p0, p1, p2] e = [e, p0, p0]"
  by (simp add: shift_errors_def)

lemma length_shift_errors: "length (shift_errors pe e) = length pe"
  by (simp add: shift_errors_def Let_def)

lemma compute_output_snd:
  "snd (compute_output c t PV) =
     cap_output c (slew_limit c
       (if outside_deadband c (fsub (SP c) PV)
        then fadd (fadd (fmul (kp c) (fsub (SP c) PV))
                        (fmul (ki c) (fadd (integral c) (fmul (fsub (SP c) PV) (elapsed c t)))))
                  (fmul (kd c) (derivative_term c (fsub (SP c) PV) (elapsed c t)))
        else Fin 0))"
  by (simp add: compute_output_def Let_def)

lemma compute_output_fields:
  "SP (fst (compute_output c t PV)) = SP c"
  "kp (fst (compute_output c t PV)) = kp c"
  "ki (fst (compute_output c t PV)) = ki c"
  "kd (fst (compute_output c t PV)) = kd c"
  "outMax (fst (compute_output c t PV)) = outMax c"
  "outMin (fst (compute_output c t PV)) = outMin c"
  "output_slew_rate (fst (compute_output c t PV)) = output_slew_rate c"
  "offset (fst (compute_output c t PV)) = offset c"
  "time_stamp_prev (fst (compute_output c t PV)) = t"
  "prev_output (fst (compute_output c t PV)) = snd (compute_output c t PV)"
  "prev_error (fst (compute_output c t PV)) = shift_errors (prev_error c) (fsub (SP c) PV)"
  by (simp_all add: compute_output_def Let_def)

lemma run_pid_fst:
  "fst (run_pid c ((t, PV) # rest)) =
     snd (compute_output c t PV) # fst (run_pid (fst (compute_output c t PV)) rest)"
  by (simp add: split_def Let_def)

lemma run_pid_snd:
  "snd (run_pid c ((t, PV) # rest)) = snd (run_pid (fst (compute_output c t PV)) rest)"
  by (simp add: split_def Let_def)

section \<open>The derivative term and the error history\<close>

text \<open>
  After three calls with the errors \<open>e0\<close>, \<open>e1\<close>, \<open>e2\<close> the history is \<open>[e2, e1, e1]\<close>:
  \<open>e0\<close> is gone and \<open>e1\<close> is there twice, because \<open>prev_error[2]\<close> is assigned from
  \<open>prev_error[1]\<close> after that slot has been overwritten.
\<close>

lemma history_after_three_calls:
  "prev_error (snd (run_pid (PID_controller sp slew hi lo p i d off)
      [(t0, pv0), (t1, pv1), (t2, pv2)])) = [fsub sp pv2, fsub sp pv1, fsub sp pv1]"
  by (simp add: run_pid_snd compute_output_fields del: run_pid.simps(2))
     (simp add: PID_controller_def shift_errors_three)

text \<open>
  So the derivative term of a fourth call, \<open>dt\<close> seconds later with the error \<open>e3\<close>, is
  \<open>(e3 - e2) / 6 / dt\<close>: the two middle terms cancel.
\<close>

lemma derivative_fourth_call:
  assumes "dt \<noteq> 0"
  shows "derivative_term
           (snd (run_pid (PID_controller (Fin sp) slew hi lo p i d off)
                   [(t0, Fin (sp - e0)), (t1, Fin (sp - e1)), (t2, Fin (sp - e2))]))
           (Fin e3) (Fin dt) = Fin ((e3 - e2) / 6 / dt)"
  using assms
  by (simp add: derivative_term_def derivative_numerator_def history_after_three_calls
      del: run_pid.simps)

text \<open>
  Claim C1. The derivative term of the fourth call is claimed to be
  \<open>(e3 + 3*e2 - 3*e1 - e0) / 6 / dt\<close>, the history holding the three most recent
  errors in order. Evaluated with the setpoint 0, the errors 1, 2, 4, 8 and calls one
  second apart, the history before the fourth call is \<open>[4, 2, 2]\<close> and the derivative
  term is \<open>(8 - 4) / 6 = 2/3\<close>, which is also the output returned with the gains
  \<open>kp = ki = 0\<close>, \<open>kd = 1\<close>. The claimed value is \<open>13/6\<close>.
\<close>

theorem derivative_fourth_call_evaluated:
  "prev_error (snd (run_pid
      (PID_controller (Fin 0) (Fin 100) (Fin 100) (Fin (- 100)) (Fin 0) (Fin 0) (Fin 1) (Fin 0))
      [(1, Fin (- 1)), (2, Fin (- 2)), (3, Fin (- 4))])) = [Fin 4, Fin 2, Fin 2] \<and>
   derivative_term (snd (run_pid
      (PID_controller (Fin 0) (Fin 100) (Fin 100) (Fin (- 100)) (Fin 0) (Fin 0) (Fin 1) (Fin 0))
      [(1, Fin (- 1)), (2, Fin (- 2)), (3, Fin (- 4))])) (Fin 8) (Fin 1) = Fin (2 / 3) \<and>
   fst (run_pid
      (PID_controller (Fin 0) (Fin 100) (Fin 100) (Fin (- 100)) (Fin 0) (Fin 0) (Fin 1) (Fin 0))
      [(1, Fin (- 1)), (2, Fin (- 2)), (3, Fin (- 4)), (4, Fin (- 8))]) ! 3 = Fin (2 / 3) \<and>
   Fin (2 / 3) \<noteq> Fin ((8 + 3 * 4 - 3 * 2 - 1) / 6 / 1)"
  by code_simp

section \<open>The first elapsed time\<close>

text \<open>
  Claim C8, as amended. The constructor sets \<open>time_stamp_prev\<close> to 0 and does not read
  the clock, so on the first call \<open>dt\<close> is the clock reading itself (the seconds since the
  epoch of the clock), not the seconds since construction.
\<close>

theorem first_dt_is_clock_reading:
  "time_stamp_prev (PID_controller SP_in slew hi lo p i d off) = 0 \<and>
   elapsed (PID_controller SP_in slew hi lo p i d off) now = Fin now"
  by (simp add: PID_controller_def elapsed_def)

text \<open>
  Claim C8 as stated fails: for a controller of \<open>main\<close> constructed when the clock reads
  100 and first called when it reads 101, \<open>dt\<close> is 101 and not 1.
\<close>

theorem first_dt_not_since_construction:
  "elapsed (PID_controller (Fin 250) (Fin (2 / 10)) (Fin (3 / 10)) (Fin (- (3 / 10)))
      (Fin 1) (Fin 1) (Fin 1) (Fin 0)) 101 = Fin 101 \<and>
   elapsed (PID_controller (Fin 250) (Fin (2 / 10)) (Fin (3 / 10)) (Fin (- (3 / 10)))
      (Fin 1) (Fin 1) (Fin 1) (Fin 0)) 101 \<noteq> elapsed_since_construction 100 101"
  by (simp add: PID_controller_def elapsed_def elapsed_since_construction_def)

section \<open>The integral accumulator\<close>

text \<open>
  Claim C10. On every call the integral grows by \<open>error * dt\<close>, whatever the deadband
  test says: also on a call whose error is inside the deadband, where the computed output
  is forced to 0 before the slew limit and the cap.
\<close>

theorem integral_accumulates_before_deadband:
  "integral (fst (compute_output c t PV)) =
      fadd (integral c) (fmul (fsub (SP c) PV) (elapsed c t)) \<and>
   (\<not> outside_deadband c (fsub (SP c) PV) \<longrightarrow>
      snd (compute_output c t PV) = cap_output c (slew_limit c (Fin 0)))"
  by (simp add: compute_output_def Let_def)

text \<open>
  With the deadband 10, the error 5 and two seconds elapsed, the output is 0 and the
  integral has grown from 0 to 10.
\<close>

theorem integral_accumulates_before_deadband_witness:
  "\<not> outside_deadband
        (PID_controller (Fin 0) (Fin 1) (Fin 1) (Fin (- 1)) (Fin 1) (Fin 1) (Fin 1) (Fin 10))
        (fsub (Fin 0) (Fin (- 5))) \<and>
   integral (fst (compute_output
       (PID_controller (Fin 0) (Fin 1) (Fin 1) (Fin (- 1)) (Fin 1) (Fin 1) (Fin 1) (Fin 10))
       2 (Fin (- 5)))) = Fin 10 \<and>
   snd (compute_output
       (PID_controller (Fin 0) (Fin 1) (Fin 1) (Fin (- 1)) (Fin 1) (Fin 1) (Fin 1) (Fin 10))
       2 (Fin (- 5))) = Fin 0"
proof -
  let ?c = "PID_controller (Fin 0) (Fin 1) (Fin 1) (Fin (- 1)) (Fin 1) (Fin 1) (Fin 1) (Fin 10)"
  have h: "\<not> outside_deadband ?c (fsub (Fin 0) (Fin (- 5)))"
    by (simp add: outside_deadband_def PID_controller_def)
  have sp: "SP ?c = Fin 0"
    by (simp add: PID_controller_def)
  from integral_accumulates_before_deadband [of ?c 2 "Fin (- 5)"] h
  have "integral (fst (compute_output ?c 2 (Fin (- 5)))) =
          fadd (integral ?c) (fmul (fsub (SP ?c) (Fin (- 5))) (elapsed ?c 2))"
    and "snd (compute_output ?c 2 (Fin (- 5))) = cap_output ?c (slew_limit ?c (Fin 0))"
    by (simp_all add: sp)
  then show ?thesis using h
    by (simp add: PID_controller_def elapsed_def cap_output_def slew_limit_def)
qed

section \<open>The altitude ramp\<close>

lemma spin_stop:
  "\<not> current_altitude a < desired_altitude a \<Longrightarrow> spin a msgs published = Returned a published msgs"
  by (cases msgs) simp_all

lemma spin_below:
  "current_altitude a < desired_altitude a \<Longrightarrow>
   spin a msgs published =
     (case dropWhile (\<lambda>altd. altd < desired_altitude a) msgs of
        [] \<Rightarrow> Spinning (a\<lparr>current_altitude := last (current_altitude a # msgs)\<rparr>)
               (published @ replicate (length msgs) climb)
      | altd # rest \<Rightarrow>
          Returned (a\<lparr>current_altitude := altd\<rparr>)
            (published @
             replicate (Suc (length (takeWhile (\<lambda>altd. altd < desired_altitude a) msgs))) climb)
            rest)"
proof (induction msgs arbitrary: a published)
  case Nil
  then show ?case by simp
next
  case (Cons m ms)
  let ?a' = "a\<lparr>current_altitude := m\<rparr>"
  have step: "spin a (m # ms) published = spin ?a' ms (published @ [climb])"
    using Cons.prems by (simp add: increase_altitude_callback_def)
  show ?case
  proof (cases "m < desired_altitude a")
    case True
    then have below: "current_altitude ?a' < desired_altitude ?a'" by simp
    show ?thesis
    proof (cases "dropWhile (\<lambda>altd. altd < desired_altitude a) ms")
      case Nil
      with True step Cons.IH [OF below, of "published @ [climb]"] show ?thesis
        by (simp add: replicate_app_Cons_same del: dropWhile_eq_Nil_conv)
    next
      case (Cons x xs)
      with True step Cons.IH [OF below, of "published @ [climb]"] show ?thesis
        by (simp add: replicate_app_Cons_same)
    qed
  next
    case False
    with step show ?thesis
      by (simp add: spin_stop)
  qed
qed

text \<open>
  Claim C6, as amended. For every telemetry stream: with a target above 0, every update
  delivered while \<open>run\<close> waits records the altitude and issues the climb command, the
  update that brings the altitude to the target included; then \<open>run\<close> issues exactly one
  stop command, and returns with the rest of the stream undelivered. Without such an
  update it keeps spinning, having issued one climb command per update. With a target of
  0 or less it issues the stop command at once.
\<close>

theorem increase_altitude_run_commands:
  "increase_altitude_run (increase_altitude target) navdata =
     (if target \<le> 0 then Returned (increase_altitude target) [stop] navdata
      else case dropWhile (\<lambda>altd. altd < target) navdata of
        [] \<Rightarrow> Spinning \<lparr>current_altitude = last (0 # navdata), desired_altitude = target\<rparr>
               (replicate (length navdata) climb)
      | altd # rest \<Rightarrow>
          Returned \<lparr>current_altitude = altd, desired_altitude = target\<rparr>
            (replicate (Suc (length (takeWhile (\<lambda>altd. altd < target) navdata))) climb @ [stop])
            rest)"
proof (cases "target \<le> 0")
  case True
  then show ?thesis
    by (simp add: increase_altitude_run_def spin_stop increase_altitude_def)
next
  case False
  then have below:
    "current_altitude (increase_altitude target) < desired_altitude (increase_altitude target)"
    by (simp add: increase_altitude_def)
  show ?thesis
  proof (cases "dropWhile (\<lambda>altd. altd < target) navdata")
    case Nil
    with False spin_below [OF below, of navdata "[]"] show ?thesis
      by (simp add: increase_altitude_run_def increase_altitude_def del: dropWhile_eq_Nil_conv)
  next
    case (Cons x xs)
    with False spin_below [OF below, of navdata "[]"] show ?thesis
      by (simp add: increase_altitude_run_def increase_altitude_def)
  qed
qed

theorem increase_altitude_run_commands_witness:
  "increase_altitude_run (increase_altitude 1300) [0, 700, 1300, 1400] =
     Returned \<lparr>current_altitude = 1300, desired_altitude = 1300\<rparr>
       [climb, climb, climb, stop] [1400]"
  using increase_altitude_run_commands [of 1300 "[0, 700, 1300, 1400]"] by simp

text \<open>
  Claim C6 as stated fails on the stream 0, 700, 1300 with the target 1300: the update
  that reads 1300 gets a climb command too, issued when the recorded altitude is already
  the target, so three climb commands go out where the claim allows two.
\<close>

theorem increase_altitude_run_climbs_at_target:
  "increase_altitude_run (increase_altitude 1300) [0, 700, 1300] =
      Returned \<lparr>current_altitude = 1300, desired_altitude = 1300\<rparr>
        [climb, climb, climb, stop] [] \<and>
   ramp_as_specified 1300 [0, 700, 1300] = [climb, climb, stop] \<and>
   [climb, climb, climb, stop] \<noteq> ramp_as_specified 1300 [0, 700, 1300]"
  by (simp add: increase_altitude_run_def increase_altitude_def increase_altitude_callback_def)

section \<open>Constant input at the setpoint\<close>

lemma at_setpoint_step:
  assumes "SP c = Fin sp" "offset c = Fin off" "0 \<le> off"
    "output_slew_rate c = Fin s" "0 \<le> s"
    "outMin c = Fin lo" "lo \<le> 0" "outMax c = Fin hi" "0 \<le> hi"
    "prev_output c = Fin 0"
  shows "snd (compute_output c t (Fin sp)) = Fin 0"
  using assms
  by (simp add: compute_output_snd outside_deadband_def slew_limit_def cap_output_def)

lemma at_setpoint_run:
  assumes "SP c = Fin sp" "offset c = Fin off" "0 \<le> off"
    "output_slew_rate c = Fin s" "0 \<le> s"
    "outMin c = Fin lo" "lo \<le> 0" "outMax c = Fin hi" "0 \<le> hi"
    "prev_output c = Fin 0"
  shows "fst (run_pid c (map (\<lambda>t. (t, Fin sp)) ts)) = replicate (length ts) (Fin 0)"
  using assms
proof (induction ts arbitrary: c)
  case Nil
  then show ?case by simp
next
  case (Cons t ts)
  have out: "snd (compute_output c t (Fin sp)) = Fin 0"
    using Cons.prems by (rule at_setpoint_step)
  have "fst (run_pid (fst (compute_output c t (Fin sp))) (map (\<lambda>t. (t, Fin sp)) ts)) =
          replicate (length ts) (Fin 0)"
    by (rule Cons.IH) (simp_all add: compute_output_fields Cons.prems out)
  with out show ?case
    by (simp add: run_pid_fst del: run_pid.simps(2))
qed

text \<open>
  Claim C7, as amended. A new controller whose offset and slew rate are not negative and
  whose output range contains 0, fed the setpoint as process value on every call, at any
  clock readings, returns 0 on every call, from the first one on; so every output is
  within the deadband.
\<close>

theorem at_setpoint_outputs_zero:
  assumes "0 \<le> off" "0 \<le> s" "lo \<le> 0" "0 \<le> hi"
  shows "fst (run_pid (PID_controller (Fin sp) (Fin s) (Fin hi) (Fin lo) p i d (Fin off))
                (map (\<lambda>t. (t, Fin sp)) ts)) = replicate (length ts) (Fin 0) \<and>
         list_all (\<lambda>out. fle (fabs out) (Fin off))
           (fst (run_pid (PID_controller (Fin sp) (Fin s) (Fin hi) (Fin lo) p i d (Fin off))
                (map (\<lambda>t. (t, Fin sp)) ts)))"
proof -
  let ?c = "PID_controller (Fin sp) (Fin s) (Fin hi) (Fin lo) p i d (Fin off)"
  have "fst (run_pid ?c (map (\<lambda>t. (t, Fin sp)) ts)) = replicate (length ts) (Fin 0)"
    by (rule at_setpoint_run [where off = off and s = s and lo = lo and hi = hi])
       (simp_all add: PID_controller_def assms)
  then show ?thesis using assms
    by (simp add: list_all_length)
qed

theorem at_setpoint_outputs_zero_witness:
  "(0::real) \<le> 2 \<and> (0::real) \<le> 2 / 10 \<and> - (3 / 10) \<le> (0::real) \<and> (0::real) \<le> 3 / 10 \<and>
   fst (run_pid (PID_controller (Fin 250) (Fin (2 / 10)) (Fin (3 / 10)) (Fin (- (3 / 10)))
                   (Fin 1) (Fin 1) (Fin 1) (Fin 2))
          [(1, Fin 250), (2, Fin 250), (3, Fin 250), (4, Fin 250), (5, Fin 250)]) =
     [Fin 0, Fin 0, Fin 0, Fin 0, Fin 0]"
proof -
  have h: "(0::real) \<le> 2" "(0::real) \<le> 2 / 10" "- (3 / 10) \<le> (0::real)" "(0::real) \<le> 3 / 10"
    by simp_all
  from at_setpoint_outputs_zero [OF h, of 250 "Fin 1" "Fin 1" "Fin 1" "[1, 2, 3, 4, 5]"] h
  show ?thesis by simp
qed

text \<open>
  Claim C7 as stated, with a nonnegative offset as its only precondition, fails: with the
  output range \<open>[1, 2]\<close> the cap lifts the output 0 to 1 on every call, the fifth and
  sixth included, and 1 is outside the deadband 0.
\<close>

theorem at_setpoint_output_nonzero:
  "fst (run_pid (PID_controller (Fin 0) (Fin 1) (Fin 2) (Fin 1) (Fin 1) (Fin 1) (Fin 1) (Fin 0))
          [(1, Fin 0), (2, Fin 0), (3, Fin 0), (4, Fin 0), (5, Fin 0), (6, Fin 0)]) =
     [Fin 1, Fin 1, Fin 1, Fin 1, Fin 1, Fin 1] \<and>
   Fin 1 \<noteq> Fin 0 \<and> \<not> fle (fabs (Fin 1)) (Fin 0)"
  by code_simp

section \<open>The tracking scenario\<close>

lemma velocity_first_output:
  assumes "0 < p" "0 \<le> i" "0 \<le> d" "off < 50" "0 < t"
  shows "\<exists>v. snd (compute_output
            (PID_controller (Fin 250) (Fin (2 / 10)) (Fin (3 / 10)) (Fin (- (3 / 10)))
               (Fin p) (Fin i) (Fin d) (Fin off)) t (Fin 300)) = Fin (- v) \<and> 0 < v \<and> v \<le> 2 / 10"
proof -
  let ?raw = "p * (- 50) + i * (- 50 * t) + d * (- 50 / 6 / t)"
  have "0 < p * 50" using assms by simp
  moreover have "0 \<le> i * (50 * t)" using assms by simp
  moreover have "0 \<le> d * (50 / 6 / t)" using assms by simp
  ultimately have neg: "?raw < 0" by (simp add: algebra_simps)
  have out: "snd (compute_output
            (PID_controller (Fin 250) (Fin (2 / 10)) (Fin (3 / 10)) (Fin (- (3 / 10)))
               (Fin p) (Fin i) (Fin d) (Fin off)) t (Fin 300)) =
        Fin (if ?raw < - (2 / 10) then - (2 / 10) else ?raw)"
    using assms neg
    by (simp add: compute_output_snd PID_controller_def outside_deadband_def elapsed_def
        derivative_term_def derivative_numerator_def slew_limit_def cap_output_def)
  show ?thesis
    unfolding out
    by (rule exI [of _ "- (if ?raw < - (2 / 10) then - (2 / 10) else ?raw)"]) (use neg in simp)
qed

text \<open>
  Claim C2, as amended. For the drone of \<open>main\<close> with a positive \<open>kp\<close>, nonnegative
  \<open>ki\<close> and \<open>kd\<close> and an offset below 50 for the forward-velocity controller, the first
  ErrorSignal with distance 300 (setpoint 250), read at a clock between one nanosecond and
  \<open>2^32\<close> seconds (the readings of \<open>ros::Time\<close> other than 0), makes \<open>compute_output\<close>
  return a negative value that is not below \<open>-0.2\<close>, one slew step from the initial output
  0. The forward velocity of the command is its negation: positive, at most \<open>0.2\<close>, and so
  within the bounds \<open>[-0.3, 0.3]\<close> of the controller. The drone moves forward when the
  target is too far.
\<close>

theorem forward_velocity_positive_when_far:
  assumes "arg 5 = Fin p" "0 < p" "arg 6 = Fin i" "0 \<le> i" "arg 7 = Fin d" "0 \<le> d"
    "arg 8 = Fin off" "off < 50" "1 / 10 ^ 9 \<le> t1" "t1 \<le> 2 ^ 32"
  shows "fle (Fin (- (2 / 10))) (snd (compute_output (velocity_PI (main_drone arg)) t1 (Fin 300))) \<and>
         flt (snd (compute_output (velocity_PI (main_drone arg)) t1 (Fin 300))) (Fin 0) \<and>
         linear_x (snd (autonomy_callback (main_drone arg) (t1, t2, t3)
            \<lparr>distance = Fin 300, yaw = Fin 0, height = Fin 0\<rparr>)) =
           fneg (snd (compute_output (velocity_PI (main_drone arg)) t1 (Fin 300))) \<and>
         flt (Fin 0) (linear_x (snd (autonomy_callback (main_drone arg) (t1, t2, t3)
            \<lparr>distance = Fin 300, yaw = Fin 0, height = Fin 0\<rparr>))) \<and>
         fle (linear_x (snd (autonomy_callback (main_drone arg) (t1, t2, t3)
            \<lparr>distance = Fin 300, yaw = Fin 0, height = Fin 0\<rparr>))) (Fin (2 / 10)) \<and>
         within_bounds (velocity_PI (main_drone arg))
           (linear_x (snd (autonomy_callback (main_drone arg) (t1, t2, t3)
              \<lparr>distance = Fin 300, yaw = Fin 0, height = Fin 0\<rparr>)))"
proof -
  have x: "linear_x (snd (autonomy_callback (main_drone arg) (t1, t2, t3)
            \<lparr>distance = Fin 300, yaw = Fin 0, height = Fin 0\<rparr>)) =
        fneg (snd (compute_output (velocity_PI (main_drone arg)) t1 (Fin 300)))"
    by (simp add: autonomy_callback_def split_def Let_def move_drone_def)
  have v: "velocity_PI (main_drone arg) =
        PID_controller (Fin 250) (Fin (2 / 10)) (Fin (3 / 10)) (Fin (- (3 / 10)))
          (Fin p) (Fin i) (Fin d) (Fin off)"
    using assms by (simp add: main_drone_def autonomy_def main_velocity_PI_def)
  have b: "outMin (velocity_PI (main_drone arg)) = Fin (- (3 / 10))"
    "outMax (velocity_PI (main_drone arg)) = Fin (3 / 10)"
    unfolding v by (simp_all add: PID_controller_def)
  from \<open>1 / 10 ^ 9 \<le> t1\<close> have "0 < t1"
    by (rule less_le_trans [rotated]) simp
  from velocity_first_output [OF \<open>0 < p\<close> \<open>0 \<le> i\<close> \<open>0 \<le> d\<close> \<open>off < 50\<close> this]
  obtain w where "snd (compute_output (velocity_PI (main_drone arg)) t1 (Fin 300)) = Fin (- w)"
    and "0 < w" and "w \<le> 2 / 10"
    unfolding v by blast
  then show ?thesis
    unfolding x by (simp add: within_bounds_def b)
qed

text \<open>With every gain and offset argument 1 and the clock at 1000 seconds.\<close>

theorem forward_velocity_positive_when_far_witness:
  "fle (Fin (- (2 / 10)))
     (snd (compute_output (velocity_PI (main_drone (\<lambda>n. Fin 1))) 1000 (Fin 300))) \<and>
   flt (snd (compute_output (velocity_PI (main_drone (\<lambda>n. Fin 1))) 1000 (Fin 300))) (Fin 0) \<and>
   flt (Fin 0) (linear_x (snd (autonomy_callback (main_drone (\<lambda>n. Fin 1)) (1000, 1000, 1000)
            \<lparr>distance = Fin 300, yaw = Fin 0, height = Fin 0\<rparr>))) \<and>
   fle (linear_x (snd (autonomy_callback (main_drone (\<lambda>n. Fin 1)) (1000, 1000, 1000)
            \<lparr>distance = Fin 300, yaw = Fin 0, height = Fin 0\<rparr>))) (Fin (2 / 10))"
proof -
  have h: "(0::real) < 1" "(0::real) \<le> 1" "(1::real) < 50"
    "1 / 10 ^ 9 \<le> (1000::real)" "(1000::real) \<le> 2 ^ 32"
    by simp_all
  from forward_velocity_positive_when_far
    [of "\<lambda>n. Fin 1" 1 1 1 1 1000 1000 1000, OF refl h(1) refl h(2) refl h(2) refl h(3-5)]
  show ?thesis by blast
qed

text \<open>
  Claim C2 as stated fails: with every gain and offset argument 1, the forward velocity
  of the command for distance 300 is \<open>+0.2\<close>, not negative.
\<close>

theorem forward_velocity_not_negative:
  "linear_x (snd (autonomy_callback (main_drone (\<lambda>n. Fin 1)) (1000, 1000, 1000)
            \<lparr>distance = Fin 300, yaw = Fin 0, height = Fin 0\<rparr>)) = Fin (2 / 10) \<and>
   \<not> flt (Fin (2 / 10)) (Fin 0)"
  by code_simp

section \<open>Outputs for every value of the control law\<close>

text \<open>
  The value returned by \<open>compute_output\<close> is the control law's value \<open>raw\<close> passed through
  the slew limit and the cap (lemma \<open>compute_output_snd\<close>). The facts of this section hold
  for every \<open>raw\<close>.
\<close>

lemma flt_NaN [simp]: "flt a NaN = False"
  by (cases a) simp_all

lemma fadd_NaN [simp]: "fadd a NaN = NaN"
  by (cases a) simp_all


lemma slew_limit_NaN: "slew_limit c NaN = NaN"
  by (simp add: slew_limit_def fsub_def fgt_def)

lemma slew_limit_special:
  "prev_output c = Fin po \<Longrightarrow> output_slew_rate c = Fin s \<Longrightarrow> slew_limit c NaN = NaN"
  "prev_output c = Fin po \<Longrightarrow> output_slew_rate c = Fin s \<Longrightarrow>
     slew_limit c PInf = fadd (prev_output c) (output_slew_rate c)"
  "prev_output c = Fin po \<Longrightarrow> output_slew_rate c = Fin s \<Longrightarrow>
     slew_limit c NInf = fsub (prev_output c) (output_slew_rate c)"
  by (simp_all add: slew_limit_def fsub_def fgt_def)



lemma cap_output_NaN: "cap_output c NaN = NaN"
  by (simp add: cap_output_def fgt_def)

lemma cap_output_nan_or_within:
  assumes "fle (outMin c) (outMax c)"
  shows "cap_output c out = NaN \<or> within_bounds c (cap_output c out)"
proof -
  from assms have "outMin c \<noteq> NaN" "outMax c \<noteq> NaN"
    by (cases "outMin c"; cases "outMax c"; simp)+
  with assms show ?thesis
    by (cases "outMin c"; cases "outMax c"; cases out)
       (simp_all add: cap_output_def within_bounds_def fgt_def)
qed

lemma within_bounds_step: "within_bounds (fst (compute_output c t PV)) = within_bounds c"
  by (simp add: fun_eq_iff within_bounds_def compute_output_fields)

section \<open>The output bounds\<close>

text \<open>
  Claim C4, as amended. With \<open>outMin \<le> outMax\<close>, for every sequence of calls, on any
  controller state, with any gains, process values and clock readings, every returned
  output is either NaN or lies within \<open>[outMin, outMax]\<close>.
\<close>

theorem outputs_within_bounds:
  assumes "fle (outMin c) (outMax c)"
  shows "list_all (\<lambda>out. out = NaN \<or> within_bounds c out) (fst (run_pid c calls))"
  using assms
proof (induction calls arbitrary: c)
  case Nil
  then show ?case by simp
next
  case (Cons call calls)
  obtain t PV where call: "call = (t, PV)" by (cases call)
  let ?c' = "fst (compute_output c t PV)"
  have "fle (outMin ?c') (outMax ?c')"
    using Cons.prems by (simp add: compute_output_fields)
  from Cons.IH [OF this]
  have "list_all (\<lambda>out. out = NaN \<or> within_bounds c out) (fst (run_pid ?c' calls))"
    by (simp add: within_bounds_step)
  moreover have "snd (compute_output c t PV) = NaN \<or> within_bounds c (snd (compute_output c t PV))"
    unfolding compute_output_snd by (rule cap_output_nan_or_within [OF Cons.prems])
  ultimately show ?case
    unfolding call run_pid_fst by simp
qed

text \<open>
  The yaw controller of \<open>main\<close> as a PI controller, with a very large error, a second
  call at the clock reading of the first, and a very large error of the other sign.
\<close>

theorem outputs_within_bounds_witness:
  "list_all (\<lambda>out. out = NaN \<or>
        within_bounds (PID_controller (Fin 0) (Fin (2 / 10)) (Fin (5 / 10)) (Fin (- (5 / 10)))
                 (Fin 1) (Fin 1) (Fin 0) (Fin 0)) out)
     (fst (run_pid (PID_controller (Fin 0) (Fin (2 / 10)) (Fin (5 / 10)) (Fin (- (5 / 10)))
                 (Fin 1) (Fin 1) (Fin 0) (Fin 0))
        [(1000, Fin 1000000), (1000, Fin 20), (1001, Fin (- 1000000))]))"
proof -
  let ?c = "PID_controller (Fin 0) (Fin (2 / 10)) (Fin (5 / 10)) (Fin (- (5 / 10)))
                 (Fin 1) (Fin 1) (Fin 0) (Fin 0)"
  have h: "fle (outMin ?c) (outMax ?c)"
    by (simp add: PID_controller_def)
  from outputs_within_bounds [OF h] show ?thesis .
qed

text \<open>
  Claim C4 as stated fails: the yaw controller of \<open>main\<close> with \<open>kp = 1\<close> and
  \<open>ki = kd = 0\<close>, called twice at the same clock reading with the process values 10 and
  20, returns NaN on the second call (the derivative is \<open>-\<infinity>\<close>, its product with
  \<open>kd = 0\<close> is NaN, and NaN passes the slew limit and the cap, whose comparisons are
  false). NaN is not within \<open>[-0.5, 0.5]\<close>.
\<close>

theorem output_nan_out_of_bounds:
  "fle (outMin (PID_controller (Fin 0) (Fin (2 / 10)) (Fin (5 / 10)) (Fin (- (5 / 10)))
            (Fin 1) (Fin 0) (Fin 0) (Fin 0)))
       (outMax (PID_controller (Fin 0) (Fin (2 / 10)) (Fin (5 / 10)) (Fin (- (5 / 10)))
            (Fin 1) (Fin 0) (Fin 0) (Fin 0))) \<and>
   fst (run_pid (PID_controller (Fin 0) (Fin (2 / 10)) (Fin (5 / 10)) (Fin (- (5 / 10)))
            (Fin 1) (Fin 0) (Fin 0) (Fin 0))
     [(1000, Fin 10), (1000, Fin 20)]) = [Fin (- (2 / 10)), NaN] \<and>
   \<not> within_bounds (PID_controller (Fin 0) (Fin (2 / 10)) (Fin (5 / 10)) (Fin (- (5 / 10)))
            (Fin 1) (Fin 0) (Fin 0) (Fin 0)) NaN"
  by code_simp

section \<open>The slew rate\<close>






section \<open>A call with dt = 0\<close>

text \<open>A quotient by zero is never a number, and neither is what is computed from it.\<close>

lemma fdiv_zero_not_fin: "\<not> is_fin (fdiv a (Fin 0))"
  by (cases a) (simp_all add: inf_of_def)

lemma fmul_not_fin: "\<not> is_fin b \<Longrightarrow> \<not> is_fin (fmul a b)"
  by (cases a; cases b) (simp_all add: inf_of_def)

lemma fadd_not_fin: "\<not> is_fin b \<Longrightarrow> \<not> is_fin (fadd a b)"
  by (cases a; cases b) simp_all

lemma fmul_zero_not_fin: "\<not> is_fin b \<Longrightarrow> fmul (Fin 0) b = NaN"
  by (cases b) simp_all

text \<open>
  Claim C3, as amended. \<open>compute_output\<close> has no guard on \<open>dt\<close>. A call at the clock
  reading of the previous call has \<open>dt = 0\<close> and is processed like any other, for every
  process value: the division by zero is performed and the derivative term is not a
  number (it is an infinity or NaN). With the error outside the deadband this reaches the
  output: the value returned is NaN, or the cap of the previous output plus the slew rate,
  or the cap of the previous output minus the slew rate (previous output and slew rate
  being numbers); it is NaN whenever \<open>kd\<close> is 0. With the error inside the deadband the
  derivative term is not used, and the value returned is 0 passed through the slew limit
  and the cap. In both cases the state is updated: the value returned is stored as
  previous output and the error is shifted into the history.
\<close>

theorem zero_dt_not_rejected:
  assumes "is_fin (prev_output c)" "is_fin (output_slew_rate c)"
  shows "elapsed c (time_stamp_prev c) = Fin 0 \<and>
         \<not> is_fin (derivative_term c (fsub (SP c) PV) (elapsed c (time_stamp_prev c))) \<and>
         (outside_deadband c (fsub (SP c) PV) \<longrightarrow>
            snd (compute_output c (time_stamp_prev c) PV) = NaN \<or>
            snd (compute_output c (time_stamp_prev c) PV) =
              cap_output c (fadd (prev_output c) (output_slew_rate c)) \<or>
            snd (compute_output c (time_stamp_prev c) PV) =
              cap_output c (fsub (prev_output c) (output_slew_rate c))) \<and>
         (outside_deadband c (fsub (SP c) PV) \<and> kd c = Fin 0 \<longrightarrow>
            snd (compute_output c (time_stamp_prev c) PV) = NaN) \<and>
         (\<not> outside_deadband c (fsub (SP c) PV) \<longrightarrow>
            snd (compute_output c (time_stamp_prev c) PV) = cap_output c (slew_limit c (Fin 0))) \<and>
         prev_output (fst (compute_output c (time_stamp_prev c) PV)) =
            snd (compute_output c (time_stamp_prev c) PV) \<and>
         prev_error (fst (compute_output c (time_stamp_prev c) PV)) =
            shift_errors (prev_error c) (fsub (SP c) PV) \<and>
         time_stamp_prev (fst (compute_output c (time_stamp_prev c) PV)) = time_stamp_prev c"
proof -
  let ?e = "fsub (SP c) PV"
  let ?D = "derivative_term c ?e (Fin 0)"
  let ?raw = "fadd (fadd (fmul (kp c) ?e) (fmul (ki c) (fadd (integral c) (fmul ?e (Fin 0)))))
                   (fmul (kd c) ?D)"
  from assms obtain po s where ps: "prev_output c = Fin po" "output_slew_rate c = Fin s"
    by (auto simp: is_fin_iff)
  have dt: "elapsed c (time_stamp_prev c) = Fin 0"
    by (simp add: elapsed_def)
  have der: "\<not> is_fin ?D"
    unfolding derivative_term_def by (rule fdiv_zero_not_fin)
  then have raw: "\<not> is_fin ?raw"
    by (intro fadd_not_fin fmul_not_fin)
  have three: "cap_output c (slew_limit c ?raw) = NaN \<or>
      cap_output c (slew_limit c ?raw) = cap_output c (fadd (prev_output c) (output_slew_rate c)) \<or>
      cap_output c (slew_limit c ?raw) = cap_output c (fsub (prev_output c) (output_slew_rate c))"
    using raw by (cases ?raw) (simp_all add: slew_limit_special [OF ps] cap_output_NaN)
  have pi: "cap_output c (slew_limit c ?raw) = NaN" if "kd c = Fin 0"
    using that der by (simp add: fmul_zero_not_fin slew_limit_NaN cap_output_NaN)
  show ?thesis
    using der three pi
    by (simp add: dt compute_output_snd compute_output_fields)
qed

text \<open>
  The yaw controller of \<open>main\<close> as a PI controller with the deadband 5, called a second
  time at the clock reading 1000 of the first call: with the error -40 it returns NaN,
  with the error -3 it returns 0.
\<close>

theorem zero_dt_not_rejected_witness:
  "snd (compute_output
     (fst (compute_output (PID_controller (Fin 0) (Fin (2 / 10)) (Fin (5 / 10)) (Fin (- (5 / 10)))
               (Fin 1) (Fin 1) (Fin 0) (Fin 5)) 1000 (Fin 30)))
     1000 (Fin 40)) = NaN \<and>
   snd (compute_output
     (fst (compute_output (PID_controller (Fin 0) (Fin (2 / 10)) (Fin (5 / 10)) (Fin (- (5 / 10)))
               (Fin 1) (Fin 1) (Fin 0) (Fin 5)) 1000 (Fin 30)))
     1000 (Fin 3)) = Fin 0"
proof -
  let ?d = "fst (compute_output (PID_controller (Fin 0) (Fin (2 / 10)) (Fin (5 / 10))
               (Fin (- (5 / 10))) (Fin 1) (Fin 1) (Fin 0) (Fin 5)) 1000 (Fin 30))"
  have p: "is_fin (prev_output ?d)" by code_simp
  have s: "is_fin (output_slew_rate ?d)" by code_simp
  have td: "time_stamp_prev ?d = 1000" by (simp add: compute_output_fields)
  have outside: "outside_deadband ?d (fsub (SP ?d) (Fin 40))" by code_simp
  have inside: "\<not> outside_deadband ?d (fsub (SP ?d) (Fin 3))" by code_simp
  have kd0: "kd ?d = Fin 0" by code_simp
  have zero: "cap_output ?d (slew_limit ?d (Fin 0)) = Fin 0" by code_simp
  from zero_dt_not_rejected [OF p s, of "Fin 40"] outside kd0
  have "snd (compute_output ?d 1000 (Fin 40)) = NaN"
    unfolding td by blast
  moreover from zero_dt_not_rejected [OF p s, of "Fin 3"] inside
  have "snd (compute_output ?d 1000 (Fin 3)) = cap_output ?d (slew_limit ?d (Fin 0))"
    unfolding td by blast
  ultimately show ?thesis
    unfolding zero by blast
qed

text \<open>
  Claim C3 as stated fails: the forward-velocity controller of \<open>main\<close> with the gains 1
  and the offset 0, called twice at the clock reading 1000 with the distance 300, has
  \<open>dt = 0\<close> on the second call, divides \<open>0\<close> by it, returns NaN and stores NaN as
  previous output. Nothing is rejected.
\<close>

theorem zero_dt_returns_nan:
  "elapsed (fst (compute_output (PID_controller (Fin 250) (Fin (2 / 10)) (Fin (3 / 10))
               (Fin (- (3 / 10))) (Fin 1) (Fin 1) (Fin 1) (Fin 0)) 1000 (Fin 300))) 1000 = Fin 0 \<and>
   run_pid (PID_controller (Fin 250) (Fin (2 / 10)) (Fin (3 / 10)) (Fin (- (3 / 10)))
               (Fin 1) (Fin 1) (Fin 1) (Fin 0)) [(1000, Fin 300), (1000, Fin 300)] =
     ([Fin (- (2 / 10)), NaN],
      \<lparr>time_stamp_prev = 1000, integral = Fin (- 50000), SP = Fin 250, kp = Fin 1, ki = Fin 1,
        kd = Fin 1, outMax = Fin (3 / 10), outMin = Fin (- (3 / 10)),
        prev_error = [Fin (- 50), Fin (- 50), Fin (- 50)], output_slew_rate = Fin (2 / 10),
        prev_output = NaN, offset = Fin 0\<rparr>)"
  by code_simp

end
